theory Spec2Isabelle
  imports Main
begin

section \<open>Values carried by a request\<close>

text \<open>
  Go strings and byte slices are sequences of bytes: \<open>string\<close> (a list of 8-bit
  characters) models both. A value of the empty interface type is a string, a
  \<open>map[string]interface{}\<close>, the nil interface, or a value of some other dynamic type.
\<close>

datatype iface =
    INil
  | IString string
  | IMap "string \<Rightarrow> iface option"
  | IOther

text \<open>The errors of package \<open>failure\<close> that the handlers name, and any other error value.\<close>

datatype error =
    ErrUnprocessable
  | ErrFileNotExists
  | Err string

text \<open>A run-time panic: \<open>MustGet\<close> on a missing key, a failed type assertion, a slice
  expression out of range, and the explicit \<open>panic\<close> of \<open>internalError\<close>.\<close>

datatype panic =
    PanicKeyDoesNotExist string
  | PanicTypeAssertion
  | PanicSliceBounds
  | PanicError error

text \<open>The functional options of package \<open>picfit\<close> and the record they fill in.\<close>

datatype picfit_Option = WithAsync bool | WithLoad bool

record Options =
  async :: bool
  load :: bool

fun applyOption :: "Options \<Rightarrow> picfit_Option \<Rightarrow> Options" where
  "applyOption opts (WithAsync b) = opts\<lparr>async := b\<rparr>"
| "applyOption opts (WithLoad b) = opts\<lparr>load := b\<rparr>"

definition applyOptions :: "Options \<Rightarrow> picfit_Option list \<Rightarrow> Options" where
  "applyOptions defaults fs = foldl applyOption defaults fs"

datatype Storage = Storage string

text \<open>
  \<open>image.ImageFile\<close>: the fields the handlers read or set. \<open>Headers\<close> is a Go map; it is
  kept as the list of its entries in the order in which one \<open>range\<close> loop visits them
  (Go leaves that order unspecified, so every order is a possible input). \<open>Rest\<close> stands
  for the fields the handlers never touch.
\<close>

record ImageFile =
  Filepath :: string
  Headers :: "(string \<times> string) list"
  Key :: string
  Storage_of :: "Storage option"
  Rest :: string

record ImageSizes =
  Width :: int
  Height :: int
  Bytes :: int

datatype jval = JString string | JInt int

type_synonym gin_H = "(string \<times> jval) list"

section \<open>The response writer and the request context (package gin)\<close>

text \<open>
  \<open>status\<close> is the status the client sees, \<open>header\<close> the header map (a name has a list
  of values), \<open>body\<close> the bytes written so far, and \<open>written\<close> tells whether the
  status line and headers have been sent already.
\<close>

record ResponseWriter =
  status :: int
  header :: "string \<Rightarrow> string list option"
  body :: string
  written :: bool

record Context =
  Params :: "(string \<times> string) list"
  QueryValues :: "string \<Rightarrow> string list option"
  Keys :: "string \<Rightarrow> iface option"
  Writer :: ResponseWriter
  aborted :: bool

section \<open>Collaborators outside this file\<close>

text \<open>
  Functions of other packages that the handlers call and whose code is not part of
  \<open>http_handlers.go\<close>. They are parameters of the model: every theorem holds for
  every choice of them.
  \<^item> \<open>Decode\<close> is \<open>aes256cbc.Decode(encoded, key, iv)\<close>, returning a path or an error;
  \<^item> \<open>CanonicalMIMEHeaderKey\<close> is the name under which \<open>http.Header\<close> stores a header;
  \<open>Header.Set\<close>, \<open>Header.Del\<close> and \<open>Header.Get\<close> all apply it to the name first;
  \<^item> \<open>json_Marshal\<close> is the JSON encoding of a \<open>gin.H\<close>;
  \<^item> \<open>http_Redirect\<close> is what \<open>http.Redirect\<close> does to the response writer;
  \<^item> \<open>ContentType\<close>, \<open>Content\<close>, \<open>Filename\<close>, \<open>Path\<close> and \<open>URL\<close> are the methods of
  \<open>image.ImageFile\<close>.
\<close>

record extern =
  Decode :: "string \<Rightarrow> string \<Rightarrow> string \<Rightarrow> error + string"
  CanonicalMIMEHeaderKey :: "string \<Rightarrow> string"
  json_Marshal :: "gin_H \<Rightarrow> string"
  http_Redirect :: "ResponseWriter \<Rightarrow> string \<Rightarrow> int \<Rightarrow> ResponseWriter"
  ContentType :: "ImageFile \<Rightarrow> string"
  Content :: "ImageFile \<Rightarrow> string"
  Filename :: "ImageFile \<Rightarrow> string"
  Path :: "ImageFile \<Rightarrow> string"
  URL :: "ImageFile \<Rightarrow> string"

text \<open>
  \<open>picfit.Processor\<close>: the key of the secure path and the operations the handlers
  invoke. Each handler invokes an operation at most once per request, so a function of
  the arguments describes every answer the processor can give in one run.
\<close>

record Processor =
  SecurePathKey :: string
  ProcessContext :: "Context \<Rightarrow> picfit_Option list \<Rightarrow> error + ImageFile"
  GetSizes :: "ImageFile \<Rightarrow> error + ImageSizes"
  Delete :: "string \<Rightarrow> error option"
  DeleteChild :: "string \<Rightarrow> error option"
  GetStorageByFileExist :: "string \<Rightarrow> Storage option"
  SetSecuredOptions :: "Context \<Rightarrow> string \<Rightarrow> Context"

record handlers =
  processor :: Processor

text \<open>The calls a handler makes on its collaborators, in the order it makes them.\<close>

datatype call =
    CallDecode string string string
  | CallLoggerInfo string string
  | CallSetSecuredOptions string
  | CallProcessContext "picfit_Option list"
  | CallGetSizes ImageFile
  | CallDelete string
  | CallDeleteChild string
  | CallGetStorageByFileExist string

text \<open>\<open>aes256cbc.Decode\<close> is the codec; every other call is an operation of the processor.\<close>

fun isProcessorCall :: "call \<Rightarrow> bool" where
  "isProcessorCall (CallDecode t k iv) = False"
| "isProcessorCall _ = True"

text \<open>
  What a handler does: it panics, or it returns an error (or nil), having changed the
  context and made some calls.
\<close>

datatype outcome =
    Panic panic
  | Return "error option" Context "call list"

fun callsOf :: "outcome \<Rightarrow> call list" where
  "callsOf (Panic p) = []"
| "callsOf (Return e c cs) = cs"

fun panics :: "outcome \<Rightarrow> bool" where
  "panics (Panic p) = True"
| "panics (Return e c cs) = False"

subsection \<open>The operations of \<open>gin.Context\<close> that the handlers use\<close>

definition gin_Param :: "Context \<Rightarrow> string \<Rightarrow> string" where
  "gin_Param c key = (case map_of (Params c) key of Some v \<Rightarrow> v | None \<Rightarrow> [])"

definition gin_Query :: "Context \<Rightarrow> string \<Rightarrow> string" where
  "gin_Query c key = (case QueryValues c key of Some (v # vs) \<Rightarrow> v | _ \<Rightarrow> [])"

definition gin_Get :: "Context \<Rightarrow> string \<Rightarrow> iface \<times> bool" where
  "gin_Get c key = (case Keys c key of Some v \<Rightarrow> (v, True) | None \<Rightarrow> (INil, False))"

text \<open>\<open>MustGet\<close> panics when the key is missing: \<open>None\<close> stands for that panic.\<close>

definition gin_MustGet :: "Context \<Rightarrow> string \<Rightarrow> iface option" where
  "gin_MustGet c key = (case gin_Get c key of (v, True) \<Rightarrow> Some v | (v, False) \<Rightarrow> None)"

text \<open>The status is kept once the headers are sent, and a code that is not positive is
  ignored.\<close>

definition WriteHeader :: "int \<Rightarrow> ResponseWriter \<Rightarrow> ResponseWriter" where
  "WriteHeader code w =
     (if 0 < code \<and> status w \<noteq> code \<and> \<not> written w then w\<lparr>status := code\<rparr> else w)"

definition WriteHeaderNow :: "ResponseWriter \<Rightarrow> ResponseWriter" where
  "WriteHeaderNow w = w\<lparr>written := True\<rparr>"

definition Write :: "string \<Rightarrow> ResponseWriter \<Rightarrow> ResponseWriter" where
  "Write bs w = (WriteHeaderNow w)\<lparr>body := body w @ bs\<rparr>"

text \<open>A renderer sets the content type only when the response has none yet.\<close>

definition writeContentType :: "string \<Rightarrow> ResponseWriter \<Rightarrow> ResponseWriter" where
  "writeContentType v w =
     (case header w ''Content-Type'' of
        Some (x # xs) \<Rightarrow> w
      | _ \<Rightarrow> w\<lparr>header := (header w)(''Content-Type'' \<mapsto> [v])\<rparr>)"

text \<open>\<open>c.Header(key, value)\<close> sets the header, and removes it when the value is empty.\<close>

definition gin_Header :: "extern \<Rightarrow> string \<Rightarrow> string \<Rightarrow> Context \<Rightarrow> Context" where
  "gin_Header E key v c =
     (if v = []
      then c\<lparr>Writer := (Writer c)\<lparr>header := (header (Writer c))(CanonicalMIMEHeaderKey E key := None)\<rparr>\<rparr>
      else c\<lparr>Writer := (Writer c)\<lparr>header := (header (Writer c))(CanonicalMIMEHeaderKey E key \<mapsto> [v])\<rparr>\<rparr>)"

definition getHeader :: "extern \<Rightarrow> ResponseWriter \<Rightarrow> string \<Rightarrow> string list option" where
  "getHeader E w key = header w (CanonicalMIMEHeaderKey E key)"

definition gin_Status :: "int \<Rightarrow> Context \<Rightarrow> Context" where
  "gin_Status code c = c\<lparr>Writer := WriteHeader code (Writer c)\<rparr>"

definition gin_Data :: "int \<Rightarrow> string \<Rightarrow> string \<Rightarrow> Context \<Rightarrow> Context" where
  "gin_Data code contentType bs c =
     (let c1 = gin_Status code c
      in c1\<lparr>Writer := Write bs (writeContentType contentType (Writer c1))\<rparr>)"

definition gin_String :: "int \<Rightarrow> string \<Rightarrow> Context \<Rightarrow> Context" where
  "gin_String code s c = gin_Data code ''text/plain; charset=utf-8'' s c"

definition gin_JSON :: "extern \<Rightarrow> int \<Rightarrow> gin_H \<Rightarrow> Context \<Rightarrow> Context" where
  "gin_JSON E code obj c = gin_Data code ''application/json; charset=utf-8'' (json_Marshal E obj) c"

definition gin_Redirect :: "extern \<Rightarrow> int \<Rightarrow> string \<Rightarrow> Context \<Rightarrow> Context" where
  "gin_Redirect E code location c = c\<lparr>Writer := http_Redirect E (Writer c) location code\<rparr>"

definition gin_AbortWithStatus :: "int \<Rightarrow> Context \<Rightarrow> Context" where
  "gin_AbortWithStatus code c =
     (let c1 = gin_Status code c
      in c1\<lparr>Writer := WriteHeaderNow (Writer c1), aborted := True\<rparr>)"

section \<open>The handlers\<close>

definition BlockSize :: nat where
  "BlockSize = 16"

definition StatusOK :: int where
  "StatusOK = 200"

definition StatusMovedPermanently :: int where
  "StatusMovedPermanently = 301"

definition StatusBadRequest :: int where
  "StatusBadRequest = 400"

definition StatusNotFound :: int where
  "StatusNotFound = 404"

text \<open>\<open>err := first; if err != nil { return err }; return second(c)\<close>.\<close>

definition andThen :: "outcome \<Rightarrow> (Context \<Rightarrow> outcome) \<Rightarrow> outcome" where
  "andThen r f =
     (case r of
        Panic p \<Rightarrow> Panic p
      | Return (Some err) c cs \<Rightarrow> Return (Some err) c cs
      | Return None c cs \<Rightarrow>
          (case f c of
             Panic p \<Rightarrow> Panic p
           | Return e c' cs' \<Rightarrow> Return e c' (cs @ cs')))"

definition internalError :: "extern \<Rightarrow> handlers \<Rightarrow> Context \<Rightarrow> outcome" where
  "internalError E h c = Panic (PanicError (Err ''KO''))"

text \<open>The loop \<open>for k, v := range file.Headers { c.Header(k, v) }\<close>.\<close>

fun copyHeaders :: "extern \<Rightarrow> (string \<times> string) list \<Rightarrow> Context \<Rightarrow> Context" where
  "copyHeaders E [] c = c"
| "copyHeaders E ((k, v) # kvs) c = copyHeaders E kvs (gin_Header E k v c)"

definition display :: "extern \<Rightarrow> handlers \<Rightarrow> Context \<Rightarrow> outcome" where
  "display E h c =
     (case ProcessContext (processor h) c [WithAsync True, WithLoad True] of
        Inl err \<Rightarrow> Return (Some err) c [CallProcessContext [WithAsync True, WithLoad True]]
      | Inr file \<Rightarrow>
          (let c1 = copyHeaders E (Headers file) c;
               c2 = gin_Header E ''Cache-Control'' ''must-revalidate'' c1;
               c3 = gin_Data StatusOK (ContentType E file) (Content E file) c2
           in Return None c3 [CallProcessContext [WithAsync True, WithLoad True]]))"

text \<open>
  A slice expression \<open>key[:n]\<close> or \<open>key[n:]\<close> panics when \<open>n\<close> exceeds the length of the
  key (the key is a string, or a byte slice with no spare capacity). Both arguments are
  evaluated before \<open>Decode\<close> is called, and the log entry and \<open>SetSecuredOptions\<close> come
  only after a successful decode.
\<close>

definition securePath :: "extern \<Rightarrow> handlers \<Rightarrow> Context \<Rightarrow> outcome" where
  "securePath E h c =
     (case gin_MustGet c ''parameters'' of
        None \<Rightarrow> Panic (PanicKeyDoesNotExist ''parameters'')
      | Some (IMap parameters) \<Rightarrow>
          (case parameters ''path'' of
             Some (IString encodedPath) \<Rightarrow>
               (let key = SecurePathKey (processor h)
                in if length key < BlockSize then Panic PanicSliceBounds
                   else
                     (case Decode E encodedPath (take BlockSize key) (drop BlockSize key) of
                        Inl err \<Rightarrow>
                          Return (Some err) (gin_AbortWithStatus StatusNotFound c)
                            [CallDecode encodedPath (take BlockSize key) (drop BlockSize key)]
                      | Inr path \<Rightarrow>
                          Return None (SetSecuredOptions (processor h) c path)
                            [CallDecode encodedPath (take BlockSize key) (drop BlockSize key),
                             CallLoggerInfo ''Path decoded'' path,
                             CallSetSecuredOptions path]))
           | _ \<Rightarrow> Panic PanicTypeAssertion)
      | Some _ \<Rightarrow> Panic PanicTypeAssertion)"

definition secureDisplay :: "extern \<Rightarrow> handlers \<Rightarrow> Context \<Rightarrow> outcome" where
  "secureDisplay E h c = andThen (securePath E h c) (display E h)"

text \<open>
  In \<open>delete\<close>, \<open>path[1:]\<close> is evaluated only when no key is attached, and then the path
  is not empty; \<open>key.(string)\<close> panics when the attached key is not a string.
\<close>

definition delete :: "extern \<Rightarrow> handlers \<Rightarrow> Context \<Rightarrow> outcome" where
  "delete E h c =
     (let path = gin_Param c ''parameters'';
          (key, exists) = gin_Get c ''key''
      in if path = [] \<and> \<not> exists then Return (Some ErrUnprocessable) c []
         else if \<not> exists then
           (case Delete (processor h) (drop 1 path) of
              Some err \<Rightarrow> Return (Some err) c [CallDelete (drop 1 path)]
            | None \<Rightarrow> Return None (gin_String StatusOK ''Ok'' c) [CallDelete (drop 1 path)])
         else
           (case key of
              IString k \<Rightarrow>
                (case DeleteChild (processor h) k of
                   Some err \<Rightarrow> Return (Some err) c [CallDeleteChild k]
                 | None \<Rightarrow> Return None (gin_String StatusOK ''Ok'' c) [CallDeleteChild k])
            | _ \<Rightarrow> Panic PanicTypeAssertion))"

definition get :: "extern \<Rightarrow> handlers \<Rightarrow> Context \<Rightarrow> outcome" where
  "get E h c =
     (case ProcessContext (processor h) c [WithAsync False, WithLoad False] of
        Inl err \<Rightarrow> Return (Some err) c [CallProcessContext [WithAsync False, WithLoad False]]
      | Inr file \<Rightarrow>
          (case GetSizes (processor h) file of
             Inl err \<Rightarrow>
               Return (Some err) c
                 [CallProcessContext [WithAsync False, WithLoad False], CallGetSizes file]
           | Inr imageSizes \<Rightarrow>
               Return None
                 (gin_JSON E StatusOK
                    [(''filename'', JString (Filename E file)),
                     (''path'', JString (Path E file)),
                     (''url'', JString (URL E file)),
                     (''key'', JString (Key file)),
                     (''width'', JInt (Width imageSizes)),
                     (''height'', JInt (Height imageSizes)),
                     (''bytes'', JInt (Bytes imageSizes))] c)
                 [CallProcessContext [WithAsync False, WithLoad False], CallGetSizes file]))"

definition secureGet :: "extern \<Rightarrow> handlers \<Rightarrow> Context \<Rightarrow> outcome" where
  "secureGet E h c = andThen (securePath E h c) (get E h)"

definition redirect :: "extern \<Rightarrow> handlers \<Rightarrow> Context \<Rightarrow> outcome" where
  "redirect E h c =
     (case ProcessContext (processor h) c [WithAsync False, WithLoad False] of
        Inl err \<Rightarrow> Return (Some err) c [CallProcessContext [WithAsync False, WithLoad False]]
      | Inr file \<Rightarrow>
          Return None (gin_Redirect E StatusMovedPermanently (URL E file) c)
            [CallProcessContext [WithAsync False, WithLoad False]])"

definition secureRedirect :: "extern \<Rightarrow> handlers \<Rightarrow> Context \<Rightarrow> outcome" where
  "secureRedirect E h c = andThen (securePath E h c) (redirect E h)"

definition info :: "extern \<Rightarrow> handlers \<Rightarrow> Context \<Rightarrow> outcome" where
  "info E h c =
     (let path = gin_Query c ''path''
      in if path = []
         then Return None (gin_String StatusBadRequest ''Request should contains path string'' c) []
         else
           (case GetStorageByFileExist (processor h) path of
              None \<Rightarrow> Return (Some ErrFileNotExists) c [CallGetStorageByFileExist path]
            | Some storage \<Rightarrow>
                (let img = \<lparr>Filepath = path, Headers = [], Key = [],
                            Storage_of = Some storage, Rest = []\<rparr>
                 in case GetSizes (processor h) img of
                      Inl err \<Rightarrow>
                        Return (Some err) c [CallGetStorageByFileExist path, CallGetSizes img]
                    | Inr imgSizes \<Rightarrow>
                        Return None
                          (gin_JSON E StatusOK
                             [(''filename'', JString (Filename E img)),
                              (''path'', JString (Path E img)),
                              (''url'', JString (URL E img)),
                              (''width'', JInt (Width imgSizes)),
                              (''height'', JInt (Height imgSizes)),
                              (''bytes'', JInt (Bytes imgSizes))] c)
                          [CallGetStorageByFileExist path, CallGetSizes img])))"

definition exist :: "extern \<Rightarrow> handlers \<Rightarrow> Context \<Rightarrow> outcome" where
  "exist E h c =
     (let path = gin_Query c ''path''
      in if path = []
         then Return None (gin_String StatusBadRequest ''Request should contains path string'' c) []
         else
           (case GetStorageByFileExist (processor h) path of
              None \<Rightarrow> Return (Some ErrFileNotExists) c [CallGetStorageByFileExist path]
            | Some storage \<Rightarrow> Return None c [CallGetStorageByFileExist path]))"

section \<open>Reading the calls of a run\<close>

fun processContextCalls :: "call list \<Rightarrow> picfit_Option list list" where
  "processContextCalls [] = []"
| "processContextCalls (CallProcessContext opts # cs) = opts # processContextCalls cs"
| "processContextCalls (x # cs) = processContextCalls cs"

fun decodeCalls :: "call list \<Rightarrow> (string \<times> string \<times> string) list" where
  "decodeCalls [] = []"
| "decodeCalls (CallDecode t k iv # cs) = (t, k, iv) # decodeCalls cs"
| "decodeCalls (x # cs) = decodeCalls cs"

section \<open>Concrete requests\<close>

text \<open>
  A codec that accepts the single token \<open>good\<close>, header names stored unchanged, and a
  processor that serves one file whose headers are the argument.
\<close>

definition exExtern :: extern where
  "exExtern =
     \<lparr>Decode = (\<lambda>t k iv. if t = ''good'' then Inr ''/a/b.jpg'' else Inl (Err ''cipher'')),
      CanonicalMIMEHeaderKey = (\<lambda>s. s),
      json_Marshal = (\<lambda>obj. ''{}''),
      http_Redirect = (\<lambda>w location code. w\<lparr>status := code, written := True\<rparr>),
      ContentType = (\<lambda>f. ''image/jpeg''),
      Content = Rest,
      Filename = Filepath,
      Path = Filepath,
      URL = Filepath\<rparr>"

definition exFile :: "(string \<times> string) list \<Rightarrow> ImageFile" where
  "exFile hs =
     \<lparr>Filepath = ''a/b.jpg'', Headers = hs, Key = ''k1'', Storage_of = None, Rest = ''JPEGDATA''\<rparr>"

definition exHandlers :: "string \<Rightarrow> (string \<times> string) list \<Rightarrow> handlers" where
  "exHandlers key hs =
     \<lparr>processor =
        \<lparr>SecurePathKey = key,
         ProcessContext = (\<lambda>c opts. Inr (exFile hs)),
         GetSizes = (\<lambda>f. Inr \<lparr>Width = 1, Height = 1, Bytes = 8\<rparr>),
         Delete = (\<lambda>p. None),
         DeleteChild = (\<lambda>k. None),
         GetStorageByFileExist = (\<lambda>p. None),
         SetSecuredOptions = (\<lambda>c p. c)\<rparr>\<rparr>"

definition exKey32 :: string where
  "exKey32 = ''0123456789abcdefFEDCBA9876543210''"

definition exKey48 :: string where
  "exKey48 = ''0123456789abcdefFEDCBA9876543210ABCDEFGHIJKLMNOP''"

definition exWriter :: ResponseWriter where
  "exWriter = \<lparr>status = 200, header = Map.empty, body = [], written = False\<rparr>"

definition exContext :: "(string \<times> string) list \<Rightarrow> (string \<Rightarrow> iface option) \<Rightarrow> Context" where
  "exContext ps ks =
     \<lparr>Params = ps, QueryValues = Map.empty, Keys = ks, Writer = exWriter, aborted = False\<rparr>"

definition exParameters :: "string \<Rightarrow> string \<Rightarrow> iface option" where
  "exParameters tok = Map.empty(''path'' \<mapsto> IString tok)"

definition exSecured :: "string \<Rightarrow> Context" where
  "exSecured tok = exContext [] (Map.empty(''parameters'' \<mapsto> IMap (exParameters tok)))"

section \<open>Facts about the context operations\<close>

lemma Writer_gin_AbortWithStatus:
  "\<not> written (Writer c) \<Longrightarrow> 0 < code \<Longrightarrow>
   gin_AbortWithStatus code c =
     c\<lparr>Writer := (Writer c)\<lparr>status := code, written := True\<rparr>, aborted := True\<rparr>"
  by (simp add: gin_AbortWithStatus_def gin_Status_def WriteHeader_def WriteHeaderNow_def Let_def)

lemma header_gin_Header:
  "header (Writer (gin_Header E k v c)) K =
     (if CanonicalMIMEHeaderKey E k = K then (if v = [] then None else Some [v])
      else header (Writer c) K)"
  by (simp add: gin_Header_def)

lemma rest_gin_Header:
  "status (Writer (gin_Header E k v c)) = status (Writer c)"
  "body (Writer (gin_Header E k v c)) = body (Writer c)"
  "written (Writer (gin_Header E k v c)) = written (Writer c)"
  by (simp_all add: gin_Header_def)

lemma header_gin_Data:
  "header (Writer (gin_Data code ct bs c)) K =
     (if K = ''Content-Type''
      then (case header (Writer c) ''Content-Type'' of
              Some (x # xs) \<Rightarrow> Some (x # xs)
            | _ \<Rightarrow> Some [ct])
      else header (Writer c) K)"
  by (simp add: gin_Data_def gin_Status_def WriteHeader_def Write_def WriteHeaderNow_def
      writeContentType_def Let_def split: option.splits list.splits)

lemma body_gin_Data: "body (Writer (gin_Data code ct bs c)) = body (Writer c) @ bs"
  by (simp add: gin_Data_def gin_Status_def WriteHeader_def Write_def WriteHeaderNow_def
      writeContentType_def Let_def split: option.splits list.splits)

lemma status_gin_Data:
  "\<not> written (Writer c) \<Longrightarrow> 0 < code \<Longrightarrow> status (Writer (gin_Data code ct bs c)) = code"
  by (simp add: gin_Data_def gin_Status_def WriteHeader_def Write_def WriteHeaderNow_def
      writeContentType_def Let_def split: option.splits list.splits)

lemma status_gin_String:
  "\<not> written (Writer c) \<Longrightarrow> 0 < code \<Longrightarrow> status (Writer (gin_String code s c)) = code"
  by (simp add: gin_String_def status_gin_Data)

lemma body_gin_String: "body (Writer (gin_String code s c)) = body (Writer c) @ s"
  by (simp add: gin_String_def body_gin_Data)

section \<open>The loop that copies the headers of the file\<close>

lemma rest_copyHeaders:
  "status (Writer (copyHeaders E kvs c)) = status (Writer c)
   \<and> body (Writer (copyHeaders E kvs c)) = body (Writer c)
   \<and> written (Writer (copyHeaders E kvs c)) = written (Writer c)"
  by (induction E kvs c rule: copyHeaders.induct) (simp_all add: rest_gin_Header)

text \<open>A header name that no entry canonicalises to keeps the values it had.\<close>

lemma header_copyHeaders_other:
  "[e \<leftarrow> kvs. CanonicalMIMEHeaderKey E (fst e) = K] = [] \<Longrightarrow>
   header (Writer (copyHeaders E kvs c)) K = header (Writer c) K"
proof (induction E kvs c rule: copyHeaders.induct)
  case (1 E c)
  then show ?case by simp
next
  case (2 E k v kvs c)
  then show ?case by (simp add: header_gin_Header split: if_splits)
qed

text \<open>A header name that exactly one entry canonicalises to gets the value of that entry.\<close>

lemma header_copyHeaders_unique:
  "[e \<leftarrow> kvs. CanonicalMIMEHeaderKey E (fst e) = K] = [(k, v)] \<Longrightarrow>
   header (Writer (copyHeaders E kvs c)) K = (if v = [] then None else Some [v])"
proof (induction E kvs c rule: copyHeaders.induct)
  case (1 E c)
  then show ?case by simp
next
  case (2 E k' v' kvs c)
  show ?case
  proof (cases "CanonicalMIMEHeaderKey E k' = K")
    case True
    with "2.prems" have eq: "k' = k" "v' = v"
      and others: "[e \<leftarrow> kvs. CanonicalMIMEHeaderKey E (fst e) = K] = []"
      by simp_all
    show ?thesis
      using header_copyHeaders_other [OF others, of "gin_Header E k' v' c"] True eq
      by (simp add: header_gin_Header)
  next
    case False
    with "2.prems" have "[e \<leftarrow> kvs. CanonicalMIMEHeaderKey E (fst e) = K] = [(k, v)]"
      by simp
    from "2.IH" [OF this] show ?thesis by simp
  qed
qed

section \<open>What a successful display leaves in the response\<close>

lemma display_success:
  "ProcessContext (processor h) c [WithAsync True, WithLoad True] = Inr img \<Longrightarrow>
   display E h c =
     Return None
       (gin_Data StatusOK (ContentType E img) (Content E img)
          (gin_Header E ''Cache-Control'' ''must-revalidate'' (copyHeaders E (Headers img) c)))
       [CallProcessContext [WithAsync True, WithLoad True]]"
  by (simp add: display_def Let_def)

lemma cache_control_displayed:
  "getHeader E
     (Writer (gin_Data code ct bs (gin_Header E ''Cache-Control'' ''must-revalidate'' c1)))
     ''Cache-Control'' = Some [''must-revalidate'']"
  by (simp add: getHeader_def header_gin_Data header_gin_Header)

lemma declared_displayed:
  assumes "[e \<leftarrow> kvs. CanonicalMIMEHeaderKey E (fst e) = CanonicalMIMEHeaderKey E k] = [(k, v)]"
    and "CanonicalMIMEHeaderKey E k \<noteq> CanonicalMIMEHeaderKey E ''Cache-Control''"
    and "v \<noteq> []"
  shows "getHeader E
     (Writer (gin_Data code ct bs
        (gin_Header E ''Cache-Control'' ''must-revalidate'' (copyHeaders E kvs c)))) k = Some [v]"
  using header_copyHeaders_unique [OF assms(1), of c] assms(2,3)
  by (auto simp add: getHeader_def header_gin_Data header_gin_Header)

lemma content_type_displayed:
  assumes "[e \<leftarrow> kvs. CanonicalMIMEHeaderKey E (fst e) = ''Content-Type''] = []"
    and "CanonicalMIMEHeaderKey E ''Cache-Control'' \<noteq> ''Content-Type''"
    and "header (Writer c) ''Content-Type'' = None"
  shows "header
     (Writer (gin_Data code ct bs
        (gin_Header E ''Cache-Control'' ''must-revalidate'' (copyHeaders E kvs c))))
     ''Content-Type'' = Some [ct]"
  using header_copyHeaders_other [OF assms(1), of c] assms(2,3)
  by (simp add: header_gin_Data header_gin_Header)

lemma body_displayed:
  "body (Writer (gin_Data code ct bs
      (gin_Header E ''Cache-Control'' ''must-revalidate'' (copyHeaders E kvs c))))
   = body (Writer c) @ bs"
  by (simp add: body_gin_Data rest_gin_Header rest_copyHeaders)

lemma status_displayed:
  "\<not> written (Writer c) \<Longrightarrow>
   status (Writer (gin_Data StatusOK ct bs
      (gin_Header E ''Cache-Control'' ''must-revalidate'' (copyHeaders E kvs c)))) = 200"
  by (simp add: status_gin_Data rest_gin_Header rest_copyHeaders StatusOK_def)

section \<open>The secure path and the handlers behind it\<close>

lemma securePath_decode_fails:
  assumes "Keys c ''parameters'' = Some (IMap ps)"
    and "ps ''path'' = Some (IString tok)"
    and "BlockSize \<le> length (SecurePathKey (processor h))"
    and "Decode E tok (take BlockSize (SecurePathKey (processor h)))
           (drop BlockSize (SecurePathKey (processor h))) = Inl err"
  shows "securePath E h c =
           Return (Some err) (gin_AbortWithStatus StatusNotFound c)
             [CallDecode tok (take BlockSize (SecurePathKey (processor h)))
                (drop BlockSize (SecurePathKey (processor h)))]"
  using assms by (simp add: securePath_def gin_MustGet_def gin_Get_def Let_def)

lemma andThen_error: "andThen (Return (Some err) c cs) f = Return (Some err) c cs"
  by (simp add: andThen_def)

lemma panics_andThen: "panics r \<Longrightarrow> panics (andThen r f)"
  by (cases r) (simp_all add: andThen_def)

lemma securePath_panics:
  assumes "Keys c ''parameters'' = None
     \<or> (\<exists>v. Keys c ''parameters'' = Some v \<and> (\<forall>m. v \<noteq> IMap m))
     \<or> (\<exists>m. Keys c ''parameters'' = Some (IMap m) \<and> (\<forall>s. m ''path'' \<noteq> Some (IString s)))"
  shows "panics (securePath E h c)"
  using assms
  by (auto simp add: securePath_def gin_MustGet_def gin_Get_def Let_def
      split: option.splits iface.splits sum.splits)

lemma decodeCalls_securePath:
  "decodeCalls (callsOf (securePath E h c)) = [] \<or>
   (\<exists>tok. decodeCalls (callsOf (securePath E h c)) =
      [(tok, take BlockSize (SecurePathKey (processor h)),
        drop BlockSize (SecurePathKey (processor h)))]
    \<and> BlockSize \<le> length (SecurePathKey (processor h)))"
  by (simp add: securePath_def Let_def split: option.splits iface.splits sum.splits)

lemma processContextCalls_append:
  "processContextCalls (xs @ ys) = processContextCalls xs @ processContextCalls ys"
  by (induction xs rule: processContextCalls.induct) simp_all

lemma processContextCalls_securePath: "processContextCalls (callsOf (securePath E h c)) = []"
  by (simp add: securePath_def Let_def split: option.splits iface.splits sum.splits)

lemma processContextCalls_display:
  "processContextCalls (callsOf (display E h c)) = [[WithAsync True, WithLoad True]]"
  by (simp add: display_def Let_def split: sum.splits)

lemma processContextCalls_get:
  "processContextCalls (callsOf (get E h c)) = [[WithAsync False, WithLoad False]]"
  by (simp add: get_def Let_def split: sum.splits)

lemma processContextCalls_redirect:
  "processContextCalls (callsOf (redirect E h c)) = [[WithAsync False, WithLoad False]]"
  by (simp add: redirect_def Let_def split: sum.splits)

text \<open>A secured handler calls \<open>ProcessContext\<close> as the handler behind it does, or not at all.\<close>

lemma processContextCalls_andThen:
  assumes "processContextCalls (callsOf r) = []"
    and "\<And>c'. processContextCalls (callsOf (f c')) = [opts]"
  shows "processContextCalls (callsOf (andThen r f)) \<in> {[], [opts]}"
proof (cases r)
  case (Panic p)
  then show ?thesis by (simp add: andThen_def)
next
  case (Return e c cs)
  note r = this
  show ?thesis
  proof (cases e)
    case None
    show ?thesis
    proof (cases "f c")
      case (Panic p)
      then show ?thesis using r None by (simp add: andThen_def)
    next
      case (Return e' c' cs')
      then have "processContextCalls cs' = [opts]" using assms(2) [of c] by simp
      moreover have "processContextCalls cs = []" using assms(1) r by simp
      ultimately show ?thesis
        using r None Return by (simp add: andThen_def processContextCalls_append)
    qed
  next
    case (Some err)
    then show ?thesis using r assms(1) by (simp add: andThen_def)
  qed
qed

section \<open>The claims\<close>

text \<open>
  C1. On a secured route (secure display, secure get, secure redirect), when the decode
  of the token fails, with whatever error, the handler aborts the request with status 404:
  the response writer is the one of the request with the status set to 404 and the
  headers sent, so nothing in it depends on the token, the key or the error. The handler
  behind the route does not run: the body and the headers are untouched and no operation
  of the processor is called. The hypotheses say that the request reaches the decoder
  (the context carries the token, the key is long enough to be sliced) and that the
  response has not been started. The error of the decoder is the value the handler
  returns to its caller.
\<close>

theorem secured_route_decode_failure_not_found:
  assumes "Keys c ''parameters'' = Some (IMap ps)"
    and "ps ''path'' = Some (IString tok)"
    and "BlockSize \<le> length (SecurePathKey (processor h))"
    and "Decode E tok (take BlockSize (SecurePathKey (processor h)))
           (drop BlockSize (SecurePathKey (processor h))) = Inl err"
    and "\<not> written (Writer c)"
  shows "\<exists>c' cs.
           secureDisplay E h c = Return (Some err) c' cs
         \<and> secureGet E h c = Return (Some err) c' cs
         \<and> secureRedirect E h c = Return (Some err) c' cs
         \<and> c' = c\<lparr>Writer := (Writer c)\<lparr>status := 404, written := True\<rparr>, aborted := True\<rparr>
         \<and> filter isProcessorCall cs = []
         \<and> processContextCalls cs = []"
  using securePath_decode_fails [OF assms(1-4)]
    Writer_gin_AbortWithStatus [OF assms(5), of StatusNotFound]
  by (simp add: secureDisplay_def secureGet_def secureRedirect_def andThen_error
      StatusNotFound_def)

theorem secured_route_decode_failure_not_found_witness:
  "Keys (exSecured ''tampered'') ''parameters'' = Some (IMap (exParameters ''tampered''))
   \<and> exParameters ''tampered'' ''path'' = Some (IString ''tampered'')
   \<and> BlockSize \<le> length (SecurePathKey (processor (exHandlers exKey32 [])))
   \<and> Decode exExtern ''tampered''
        (take BlockSize (SecurePathKey (processor (exHandlers exKey32 []))))
        (drop BlockSize (SecurePathKey (processor (exHandlers exKey32 [])))) = Inl (Err ''cipher'')
   \<and> \<not> written (Writer (exSecured ''tampered''))
   \<and> (\<exists>c' cs.
         secureDisplay exExtern (exHandlers exKey32 []) (exSecured ''tampered'')
           = Return (Some (Err ''cipher'')) c' cs
       \<and> secureGet exExtern (exHandlers exKey32 []) (exSecured ''tampered'')
           = Return (Some (Err ''cipher'')) c' cs
       \<and> secureRedirect exExtern (exHandlers exKey32 []) (exSecured ''tampered'')
           = Return (Some (Err ''cipher'')) c' cs
       \<and> Writer c' = \<lparr>status = 404, header = Map.empty, body = [], written = True\<rparr>
       \<and> aborted c'
       \<and> filter isProcessorCall cs = [])"
proof -
  have a: "Keys (exSecured ''tampered'') ''parameters'' = Some (IMap (exParameters ''tampered''))"
    by (simp add: exSecured_def exContext_def)
  have b: "exParameters ''tampered'' ''path'' = Some (IString ''tampered'')"
    by (simp add: exParameters_def)
  have k: "BlockSize \<le> length (SecurePathKey (processor (exHandlers exKey32 [])))"
    by (simp add: exHandlers_def exKey32_def BlockSize_def)
  have d: "Decode exExtern ''tampered''
        (take BlockSize (SecurePathKey (processor (exHandlers exKey32 []))))
        (drop BlockSize (SecurePathKey (processor (exHandlers exKey32 [])))) = Inl (Err ''cipher'')"
    by (simp add: exExtern_def)
  have w: "\<not> written (Writer (exSecured ''tampered''))"
    by (simp add: exSecured_def exContext_def exWriter_def)
  have e: "Writer (exSecured ''tampered'') = exWriter"
    by (simp add: exSecured_def exContext_def)
  from secured_route_decode_failure_not_found [OF a b k d w]
  obtain c' cs where
    "secureDisplay exExtern (exHandlers exKey32 []) (exSecured ''tampered'')
       = Return (Some (Err ''cipher'')) c' cs"
    "secureGet exExtern (exHandlers exKey32 []) (exSecured ''tampered'')
       = Return (Some (Err ''cipher'')) c' cs"
    "secureRedirect exExtern (exHandlers exKey32 []) (exSecured ''tampered'')
       = Return (Some (Err ''cipher'')) c' cs"
    "c' = (exSecured ''tampered'')
       \<lparr>Writer := (Writer (exSecured ''tampered''))\<lparr>status := 404, written := True\<rparr>,
        aborted := True\<rparr>"
    "filter isProcessorCall cs = []"
    by blast
  then show ?thesis
    using a b k d w by (simp add: e exWriter_def)
qed

text \<open>
  C2, as the code has it. \<open>securePath\<close> is the only caller of the decoder, and every call
  passes \<open>SecurePathKey[:BlockSize]\<close> as the cipher key and \<open>SecurePathKey[BlockSize:]\<close>
  as the initialization vector: two contiguous segments that together are the whole key.
  The cipher-key segment is exactly one block long. The initialization-vector segment is
  all that is left of the key, so it is one block long exactly when the key is two blocks
  (32 bytes) long.
\<close>

theorem securePath_key_slicing:
  assumes "(tok, k, iv) \<in> set (decodeCalls (callsOf (securePath E h c)))"
  shows "k = take BlockSize (SecurePathKey (processor h))
       \<and> iv = drop BlockSize (SecurePathKey (processor h))
       \<and> k @ iv = SecurePathKey (processor h)
       \<and> length k = BlockSize
       \<and> length iv = length (SecurePathKey (processor h)) - BlockSize
       \<and> (length iv = BlockSize) = (length (SecurePathKey (processor h)) = 2 * BlockSize)"
proof -
  from decodeCalls_securePath [of E h c] assms
  have kv: "k = take BlockSize (SecurePathKey (processor h))"
      "iv = drop BlockSize (SecurePathKey (processor h))"
    and len: "BlockSize \<le> length (SecurePathKey (processor h))"
    by auto
  from kv len show ?thesis by auto
qed

theorem securePath_key_slicing_witness:
  "(''good'', ''0123456789abcdef'', ''FEDCBA9876543210'')
      \<in> set (decodeCalls (callsOf (securePath exExtern (exHandlers exKey32 []) (exSecured ''good''))))
   \<and> ''0123456789abcdef'' @ ''FEDCBA9876543210'' = SecurePathKey (processor (exHandlers exKey32 []))
   \<and> length ''0123456789abcdef'' = BlockSize
   \<and> length ''FEDCBA9876543210'' = BlockSize"
proof -
  have m: "(''good'', ''0123456789abcdef'', ''FEDCBA9876543210'')
      \<in> set (decodeCalls (callsOf (securePath exExtern (exHandlers exKey32 []) (exSecured ''good''))))"
    by (simp add: securePath_def gin_MustGet_def gin_Get_def exSecured_def exContext_def
        exParameters_def exHandlers_def exKey32_def exExtern_def BlockSize_def)
  show ?thesis
    using m securePath_key_slicing [OF m] by (simp add: BlockSize_def)
qed

text \<open>
  C2 as stated fails: with a key of 48 bytes the decoder is called with an
  initialization-vector segment of 32 bytes, two blocks and not one.
\<close>

theorem securePath_iv_segment_counterexample:
  "decodeCalls (callsOf (securePath exExtern (exHandlers exKey48 []) (exSecured ''good'')))
     = [(''good'', ''0123456789abcdef'', ''FEDCBA9876543210ABCDEFGHIJKLMNOP'')]
   \<and> length ''FEDCBA9876543210ABCDEFGHIJKLMNOP'' = 2 * BlockSize
   \<and> length ''FEDCBA9876543210ABCDEFGHIJKLMNOP'' \<noteq> BlockSize"
  by (simp add: securePath_def gin_MustGet_def gin_Get_def exSecured_def exContext_def
      exParameters_def exHandlers_def exKey48_def exExtern_def BlockSize_def)

text \<open>
  C3, as the code has it. The delete handler branches on the derived key, not on the
  path: when a (string) key is attached the file is deleted by key, whatever the path
  parameter is; it is deleted by path only when no key is attached and the path
  parameter is not empty.
\<close>

theorem delete_key_takes_precedence:
  "(Keys c ''key'' = Some (IString k) \<longrightarrow>
      \<not> panics (delete E h c) \<and> callsOf (delete E h c) = [CallDeleteChild k])
   \<and> (Keys c ''key'' = None \<and> gin_Param c ''parameters'' \<noteq> [] \<longrightarrow>
      \<not> panics (delete E h c)
      \<and> callsOf (delete E h c) = [CallDelete (drop 1 (gin_Param c ''parameters''))])"
  by (simp add: delete_def gin_Get_def Let_def split: option.splits)

theorem delete_key_takes_precedence_witness:
  "Keys (exContext [(''parameters'', ''/a/b.jpg'')] (Map.empty(''key'' \<mapsto> IString ''k1''))) ''key''
     = Some (IString ''k1'')
   \<and> callsOf (delete exExtern (exHandlers exKey32 [])
        (exContext [(''parameters'', ''/a/b.jpg'')] (Map.empty(''key'' \<mapsto> IString ''k1''))))
     = [CallDeleteChild ''k1'']
   \<and> Keys (exContext [(''parameters'', ''/a/b.jpg'')] Map.empty) ''key'' = None
   \<and> gin_Param (exContext [(''parameters'', ''/a/b.jpg'')] Map.empty) ''parameters'' \<noteq> []
   \<and> callsOf (delete exExtern (exHandlers exKey32 [])
        (exContext [(''parameters'', ''/a/b.jpg'')] Map.empty))
     = [CallDelete ''a/b.jpg'']"
proof -
  have a: "Keys (exContext [(''parameters'', ''/a/b.jpg'')] (Map.empty(''key'' \<mapsto> IString ''k1''))) ''key''
     = Some (IString ''k1'')"
    by (simp add: exContext_def)
  have b: "Keys (exContext [(''parameters'', ''/a/b.jpg'')] Map.empty) ''key'' = None"
    by (simp add: exContext_def)
  have p: "gin_Param (exContext [(''parameters'', ''/a/b.jpg'')] Map.empty) ''parameters'' = ''/a/b.jpg''"
    by (simp add: exContext_def gin_Param_def)
  show ?thesis
    using a b p
      delete_key_takes_precedence [of "exContext [(''parameters'', ''/a/b.jpg'')] (Map.empty(''key'' \<mapsto> IString ''k1''))"
        "''k1''" exExtern "exHandlers exKey32 []"]
      delete_key_takes_precedence [of "exContext [(''parameters'', ''/a/b.jpg'')] Map.empty"
        "''k1''" exExtern "exHandlers exKey32 []"]
    by simp
qed

text \<open>
  C3 as stated fails: for a request with the path parameter \<open>/a/b.jpg\<close> and the derived
  key \<open>k1\<close> the handler deletes by key; the delete by path is not called.
\<close>

theorem delete_path_and_key_counterexample:
  "gin_Param (exContext [(''parameters'', ''/a/b.jpg'')] (Map.empty(''key'' \<mapsto> IString ''k1'')))
      ''parameters'' = ''/a/b.jpg''
   \<and> Keys (exContext [(''parameters'', ''/a/b.jpg'')] (Map.empty(''key'' \<mapsto> IString ''k1''))) ''key''
      = Some (IString ''k1'')
   \<and> callsOf (delete exExtern (exHandlers exKey32 [])
        (exContext [(''parameters'', ''/a/b.jpg'')] (Map.empty(''key'' \<mapsto> IString ''k1''))))
      = [CallDeleteChild ''k1'']
   \<and> CallDelete ''a/b.jpg'' \<notin> set (callsOf (delete exExtern (exHandlers exKey32 [])
        (exContext [(''parameters'', ''/a/b.jpg'')] (Map.empty(''key'' \<mapsto> IString ''k1'')))))"
  by (simp add: delete_def gin_Get_def gin_Param_def exContext_def exHandlers_def Let_def)

text \<open>
  C4. The options depend on the handler alone. Whatever the request and whatever the
  processor answers, display calls \<open>ProcessContext\<close> once, with \<open>WithAsync(true)\<close> and
  \<open>WithLoad(true)\<close>; get and redirect call it once, with \<open>WithAsync(false)\<close> and
  \<open>WithLoad(false)\<close>; a secured handler makes the same call or, when the secure path
  fails, none. Applied to any default options, the two lists give the records
  \<open>async = true, load = true\<close> and \<open>async = false, load = false\<close>.
\<close>

theorem options_fixed_by_intent:
  "processContextCalls (callsOf (display E h c)) = [[WithAsync True, WithLoad True]]
   \<and> processContextCalls (callsOf (get E h c)) = [[WithAsync False, WithLoad False]]
   \<and> processContextCalls (callsOf (redirect E h c)) = [[WithAsync False, WithLoad False]]
   \<and> processContextCalls (callsOf (secureDisplay E h c)) \<in> {[], [[WithAsync True, WithLoad True]]}
   \<and> processContextCalls (callsOf (secureGet E h c)) \<in> {[], [[WithAsync False, WithLoad False]]}
   \<and> processContextCalls (callsOf (secureRedirect E h c)) \<in> {[], [[WithAsync False, WithLoad False]]}
   \<and> applyOptions d [WithAsync True, WithLoad True] = \<lparr>async = True, load = True\<rparr>
   \<and> applyOptions d [WithAsync False, WithLoad False] = \<lparr>async = False, load = False\<rparr>"
proof -
  have sd: "processContextCalls (callsOf (secureDisplay E h c))
      \<in> {[], [[WithAsync True, WithLoad True]]}"
    unfolding secureDisplay_def
    by (rule processContextCalls_andThen
        [OF processContextCalls_securePath processContextCalls_display])
  have sg: "processContextCalls (callsOf (secureGet E h c))
      \<in> {[], [[WithAsync False, WithLoad False]]}"
    unfolding secureGet_def
    by (rule processContextCalls_andThen
        [OF processContextCalls_securePath processContextCalls_get])
  have sr: "processContextCalls (callsOf (secureRedirect E h c))
      \<in> {[], [[WithAsync False, WithLoad False]]}"
    unfolding secureRedirect_def
    by (rule processContextCalls_andThen
        [OF processContextCalls_securePath processContextCalls_redirect])
  have a: "applyOptions d [WithAsync True, WithLoad True] = \<lparr>async = True, load = True\<rparr>"
    by (cases d) (simp add: applyOptions_def)
  have b: "applyOptions d [WithAsync False, WithLoad False] = \<lparr>async = False, load = False\<rparr>"
    by (cases d) (simp add: applyOptions_def)
  show ?thesis
    using sd sg sr a b processContextCalls_display processContextCalls_get
      processContextCalls_redirect
    by simp
qed

text \<open>
  C5. For a delete request with no derived key and a non-empty path parameter, the only
  call is the delete by path, and its argument is the path parameter without its first
  character (the separator \<open>/\<close> that starts a path parameter). The handler answers
  \<open>200 Ok\<close> when the delete succeeds and returns the error of the delete otherwise.
\<close>

theorem delete_by_path_strips_leading_separator:
  assumes "Keys c ''key'' = None"
    and "gin_Param c ''parameters'' = sep # rest"
  shows "delete E h c =
           (case Delete (processor h) rest of
              Some err \<Rightarrow> Return (Some err) c [CallDelete rest]
            | None \<Rightarrow> Return None (gin_String StatusOK ''Ok'' c) [CallDelete rest])
         \<and> callsOf (delete E h c) = [CallDelete rest]"
  using assms by (simp add: delete_def gin_Get_def Let_def split: option.splits)

theorem delete_by_path_strips_leading_separator_witness:
  "Keys (exContext [(''parameters'', ''/a/b.jpg'')] Map.empty) ''key'' = None
   \<and> gin_Param (exContext [(''parameters'', ''/a/b.jpg'')] Map.empty) ''parameters''
       = CHR ''/'' # ''a/b.jpg''
   \<and> callsOf (delete exExtern (exHandlers exKey32 [])
        (exContext [(''parameters'', ''/a/b.jpg'')] Map.empty)) = [CallDelete ''a/b.jpg'']"
proof -
  have k: "Keys (exContext [(''parameters'', ''/a/b.jpg'')] Map.empty) ''key'' = None"
    by (simp add: exContext_def)
  have p: "gin_Param (exContext [(''parameters'', ''/a/b.jpg'')] Map.empty) ''parameters''
       = CHR ''/'' # ''a/b.jpg''"
    by (simp add: exContext_def gin_Param_def)
  show ?thesis
    using k p delete_by_path_strips_leading_separator [OF k p, of exExtern "exHandlers exKey32 []"]
    by blast
qed

text \<open>
  C6. For a delete request with an empty path parameter and no derived key, the handler
  returns \<open>failure.ErrUnprocessable\<close>, leaves the context as it was and calls nothing.
\<close>

theorem delete_without_target_is_unprocessable:
  assumes "gin_Param c ''parameters'' = []"
    and "Keys c ''key'' = None"
  shows "delete E h c = Return (Some ErrUnprocessable) c []"
  using assms by (simp add: delete_def gin_Get_def)

theorem delete_without_target_is_unprocessable_witness:
  "gin_Param (exContext [] Map.empty) ''parameters'' = []
   \<and> Keys (exContext [] Map.empty) ''key'' = None
   \<and> delete exExtern (exHandlers exKey32 []) (exContext [] Map.empty)
       = Return (Some ErrUnprocessable) (exContext [] Map.empty) []"
proof -
  have p: "gin_Param (exContext [] Map.empty) ''parameters'' = []"
    by (simp add: gin_Param_def exContext_def)
  have k: "Keys (exContext [] Map.empty) ''key'' = None"
    by (simp add: exContext_def)
  show ?thesis
    using p k delete_without_target_is_unprocessable [OF p k, of exExtern "exHandlers exKey32 []"]
    by simp
qed

text \<open>
  C7. For an info or exist request whose \<open>path\<close> query parameter is empty, on a response
  that has not been started, the handler answers with status 400 and the fixed message,
  returns nil and calls nothing.
\<close>

theorem info_exist_empty_path_bad_request:
  assumes "gin_Query c ''path'' = []"
    and "\<not> written (Writer c)"
  shows "\<exists>c'. info E h c = Return None c' []
           \<and> exist E h c = Return None c' []
           \<and> status (Writer c') = 400
           \<and> body (Writer c') = body (Writer c) @ ''Request should contains path string''"
  using assms
  by (simp add: info_def exist_def status_gin_String body_gin_String StatusBadRequest_def)

theorem info_exist_empty_path_bad_request_witness:
  "gin_Query (exContext [] Map.empty) ''path'' = []
   \<and> \<not> written (Writer (exContext [] Map.empty))
   \<and> (\<exists>c'. info exExtern (exHandlers exKey32 []) (exContext [] Map.empty) = Return None c' []
         \<and> exist exExtern (exHandlers exKey32 []) (exContext [] Map.empty) = Return None c' []
         \<and> status (Writer c') = 400
         \<and> body (Writer c') = ''Request should contains path string'')"
proof -
  have q: "gin_Query (exContext [] Map.empty) ''path'' = []"
    by (simp add: gin_Query_def exContext_def)
  have w: "\<not> written (Writer (exContext [] Map.empty))"
    by (simp add: exContext_def exWriter_def)
  have b: "body (Writer (exContext [] Map.empty)) = []"
    by (simp add: exContext_def exWriter_def)
  show ?thesis
    using q w b info_exist_empty_path_bad_request [OF q w, of exExtern "exHandlers exKey32 []"]
    by simp
qed

text \<open>
  C8, as the code has it. For a successful display request the handler returns nil after
  the single call of \<open>ProcessContext\<close>, and in the response:
  \<^item> the content of the file is written to the body, with status 200 when the response
  had not been started;
  \<^item> \<open>Cache-Control\<close> is \<open>must-revalidate\<close>;
  \<^item> a header declared by the file is in the response with the declared value when the
  value is not empty, its canonical name is not the one of \<open>Cache-Control\<close>, and no other
  declared header has the same canonical name;
  \<^item> the content type is the one of the file when neither the response so far nor the
  declared headers have a \<open>Content-Type\<close>.
\<close>

theorem display_success_response:
  assumes "ProcessContext (processor h) c [WithAsync True, WithLoad True] = Inr img"
  shows "\<exists>c'. display E h c = Return None c' [CallProcessContext [WithAsync True, WithLoad True]]
     \<and> body (Writer c') = body (Writer c) @ Content E img
     \<and> (\<not> written (Writer c) \<longrightarrow> status (Writer c') = 200)
     \<and> getHeader E (Writer c') ''Cache-Control'' = Some [''must-revalidate'']
     \<and> (\<forall>k v. [e \<leftarrow> Headers img.
                 CanonicalMIMEHeaderKey E (fst e) = CanonicalMIMEHeaderKey E k] = [(k, v)]
            \<and> CanonicalMIMEHeaderKey E k \<noteq> CanonicalMIMEHeaderKey E ''Cache-Control''
            \<and> v \<noteq> []
          \<longrightarrow> getHeader E (Writer c') k = Some [v])
     \<and> ([e \<leftarrow> Headers img. CanonicalMIMEHeaderKey E (fst e) = ''Content-Type''] = []
          \<and> CanonicalMIMEHeaderKey E ''Cache-Control'' \<noteq> ''Content-Type''
          \<and> header (Writer c) ''Content-Type'' = None
          \<longrightarrow> header (Writer c') ''Content-Type'' = Some [ContentType E img])"
  using display_success [OF assms, of E]
    cache_control_displayed [where E = E]
    declared_displayed [where E = E and kvs = "Headers img" and c = c]
    content_type_displayed [where E = E and kvs = "Headers img" and c = c]
    body_displayed [where E = E and kvs = "Headers img" and c = c]
    status_displayed [where E = E and kvs = "Headers img" and c = c]
  by simp

theorem display_success_response_witness:
  "ProcessContext (processor (exHandlers exKey32 [(''Last-Modified'', ''yesterday'')]))
      (exContext [] Map.empty) [WithAsync True, WithLoad True]
     = Inr (exFile [(''Last-Modified'', ''yesterday'')])
   \<and> (\<exists>c'. display exExtern (exHandlers exKey32 [(''Last-Modified'', ''yesterday'')])
               (exContext [] Map.empty)
             = Return None c' [CallProcessContext [WithAsync True, WithLoad True]]
          \<and> body (Writer c') = ''JPEGDATA''
          \<and> status (Writer c') = 200
          \<and> getHeader exExtern (Writer c') ''Cache-Control'' = Some [''must-revalidate'']
          \<and> getHeader exExtern (Writer c') ''Last-Modified'' = Some [''yesterday'']
          \<and> header (Writer c') ''Content-Type'' = Some [''image/jpeg''])"
proof -
  let ?h = "exHandlers exKey32 [(''Last-Modified'', ''yesterday'')]"
  let ?c = "exContext [] Map.empty"
  let ?f = "exFile [(''Last-Modified'', ''yesterday'')]"
  have p: "ProcessContext (processor ?h) ?c [WithAsync True, WithLoad True] = Inr ?f"
    by (simp add: exHandlers_def)
  from display_success_response [OF p, of exExtern]
  obtain c' where d: "display exExtern ?h ?c
        = Return None c' [CallProcessContext [WithAsync True, WithLoad True]]"
    and b: "body (Writer c') = body (Writer ?c) @ Content exExtern ?f"
    and s: "\<not> written (Writer ?c) \<longrightarrow> status (Writer c') = 200"
    and cc: "getHeader exExtern (Writer c') ''Cache-Control'' = Some [''must-revalidate'']"
    and hs: "\<forall>k v. [e \<leftarrow> Headers ?f.
                 CanonicalMIMEHeaderKey exExtern (fst e) = CanonicalMIMEHeaderKey exExtern k] = [(k, v)]
            \<and> CanonicalMIMEHeaderKey exExtern k \<noteq> CanonicalMIMEHeaderKey exExtern ''Cache-Control''
            \<and> v \<noteq> []
          \<longrightarrow> getHeader exExtern (Writer c') k = Some [v]"
    and ct: "[e \<leftarrow> Headers ?f. CanonicalMIMEHeaderKey exExtern (fst e) = ''Content-Type''] = []
          \<and> CanonicalMIMEHeaderKey exExtern ''Cache-Control'' \<noteq> ''Content-Type''
          \<and> header (Writer ?c) ''Content-Type'' = None
          \<longrightarrow> header (Writer c') ''Content-Type'' = Some [ContentType exExtern ?f]"
    by blast
  have b': "body (Writer c') = ''JPEGDATA''"
    using b by (simp add: exContext_def exWriter_def exExtern_def exFile_def)
  have s': "status (Writer c') = 200"
    using s by (simp add: exContext_def exWriter_def)
  have hs': "getHeader exExtern (Writer c') ''Last-Modified'' = Some [''yesterday'']"
    using hs [rule_format, of "''Last-Modified''" "''yesterday''"]
    by (simp add: exExtern_def exFile_def)
  have ct': "header (Writer c') ''Content-Type'' = Some [''image/jpeg'']"
    using ct by (simp add: exContext_def exWriter_def exExtern_def exFile_def)
  show ?thesis
    using p d b' s' cc hs' ct' by blast
qed

text \<open>
  C8 as stated fails: when the file declares the header \<open>Cache-Control: public\<close>, the
  display succeeds and the response carries \<open>Cache-Control: must-revalidate\<close>; the
  declared header is not in it.
\<close>

theorem display_declared_header_counterexample:
  "ProcessContext (processor (exHandlers exKey32 [(''Cache-Control'', ''public'')]))
      (exContext [] Map.empty) [WithAsync True, WithLoad True]
     = Inr (exFile [(''Cache-Control'', ''public'')])
   \<and> (case display exExtern (exHandlers exKey32 [(''Cache-Control'', ''public'')])
              (exContext [] Map.empty) of
         Panic p \<Rightarrow> False
       | Return e c' cs \<Rightarrow>
           e = None
         \<and> getHeader exExtern (Writer c') ''Cache-Control'' = Some [''must-revalidate'']
         \<and> getHeader exExtern (Writer c') ''Cache-Control'' \<noteq> Some [''public''])"
  by (simp add: display_def exHandlers_def exFile_def exContext_def exWriter_def exExtern_def
      gin_Header_def gin_Data_def gin_Status_def WriteHeader_def Write_def WriteHeaderNow_def
      writeContentType_def getHeader_def StatusOK_def Let_def)

text \<open>
  C9. The display handler sets \<open>Cache-Control\<close> after the loop that copies the headers of
  the file. So when the file declares a header whose canonical name is the one of
  \<open>Cache-Control\<close>, with whatever value, a successful display leaves exactly the value
  \<open>must-revalidate\<close> under that name: the declared value is gone.
\<close>

theorem display_cache_control_overrides_declared:
  assumes "ProcessContext (processor h) c [WithAsync True, WithLoad True] = Inr img"
    and "(k, v) \<in> set (Headers img)"
    and "CanonicalMIMEHeaderKey E k = CanonicalMIMEHeaderKey E ''Cache-Control''"
  shows "\<exists>c'. display E h c = Return None c' [CallProcessContext [WithAsync True, WithLoad True]]
     \<and> getHeader E (Writer c') ''Cache-Control'' = Some [''must-revalidate'']
     \<and> getHeader E (Writer c') k = Some [''must-revalidate'']
     \<and> (v \<noteq> ''must-revalidate'' \<longrightarrow> getHeader E (Writer c') k \<noteq> Some [v])"
proof -
  have same: "getHeader E w k = getHeader E w ''Cache-Control''" for w
    using assms(3) by (simp add: getHeader_def)
  show ?thesis
    using display_success [OF assms(1), of E] cache_control_displayed [where E = E]
    by (simp add: same)
qed

theorem display_cache_control_overrides_declared_witness:
  "ProcessContext (processor (exHandlers exKey32 [(''Cache-Control'', ''public, max-age=60'')]))
      (exContext [] Map.empty) [WithAsync True, WithLoad True]
     = Inr (exFile [(''Cache-Control'', ''public, max-age=60'')])
   \<and> (''Cache-Control'', ''public, max-age=60'')
       \<in> set (Headers (exFile [(''Cache-Control'', ''public, max-age=60'')]))
   \<and> (\<exists>c'. display exExtern (exHandlers exKey32 [(''Cache-Control'', ''public, max-age=60'')])
               (exContext [] Map.empty)
             = Return None c' [CallProcessContext [WithAsync True, WithLoad True]]
          \<and> getHeader exExtern (Writer c') ''Cache-Control'' = Some [''must-revalidate''])"
proof -
  let ?h = "exHandlers exKey32 [(''Cache-Control'', ''public, max-age=60'')]"
  let ?f = "exFile [(''Cache-Control'', ''public, max-age=60'')]"
  have p: "ProcessContext (processor ?h) (exContext [] Map.empty) [WithAsync True, WithLoad True]
      = Inr ?f"
    by (simp add: exHandlers_def)
  have m: "(''Cache-Control'', ''public, max-age=60'') \<in> set (Headers ?f)"
    by (simp add: exFile_def)
  have n: "CanonicalMIMEHeaderKey exExtern ''Cache-Control''
      = CanonicalMIMEHeaderKey exExtern ''Cache-Control''"
    by simp
  show ?thesis
    using p m display_cache_control_overrides_declared [OF p m n] by blast
qed

text \<open>
  C10. The type assertions of \<open>securePath\<close> are unguarded. When the context has no
  \<open>parameters\<close> entry, or that entry is not a \<open>map[string]interface{}\<close>, or the map has
  no \<open>path\<close> entry or one that is not a string, \<open>securePath\<close> panics, and so does each
  of the three secured handlers: none of them returns an error.
\<close>

theorem securePath_unguarded_assertions_panic:
  assumes "Keys c ''parameters'' = None
     \<or> (\<exists>v. Keys c ''parameters'' = Some v \<and> (\<forall>m. v \<noteq> IMap m))
     \<or> (\<exists>m. Keys c ''parameters'' = Some (IMap m) \<and> (\<forall>s. m ''path'' \<noteq> Some (IString s)))"
  shows "panics (securePath E h c)
       \<and> panics (secureDisplay E h c)
       \<and> panics (secureGet E h c)
       \<and> panics (secureRedirect E h c)"
  using securePath_panics [OF assms, of E h]
  by (simp add: secureDisplay_def secureGet_def secureRedirect_def panics_andThen)

theorem securePath_unguarded_assertions_panic_witness:
  "Keys (exContext [] Map.empty) ''parameters'' = None
   \<and> panics (secureDisplay exExtern (exHandlers exKey32 []) (exContext [] Map.empty))
   \<and> Keys (exContext [] (Map.empty(''parameters'' \<mapsto> IString ''x''))) ''parameters''
       = Some (IString ''x'')
   \<and> panics (secureGet exExtern (exHandlers exKey32 [])
       (exContext [] (Map.empty(''parameters'' \<mapsto> IString ''x''))))
   \<and> Keys (exContext [] (Map.empty(''parameters'' \<mapsto> IMap Map.empty))) ''parameters''
       = Some (IMap Map.empty)
   \<and> panics (secureRedirect exExtern (exHandlers exKey32 [])
       (exContext [] (Map.empty(''parameters'' \<mapsto> IMap Map.empty))))
   \<and> Keys (exContext [] (Map.empty(''parameters'' \<mapsto> IMap (Map.empty(''path'' \<mapsto> IOther)))))
       ''parameters'' = Some (IMap (Map.empty(''path'' \<mapsto> IOther)))
   \<and> panics (securePath exExtern (exHandlers exKey32 [])
       (exContext [] (Map.empty(''parameters'' \<mapsto> IMap (Map.empty(''path'' \<mapsto> IOther))))))"
proof -
  have a: "Keys (exContext [] Map.empty) ''parameters'' = None"
    by (simp add: exContext_def)
  have b: "Keys (exContext [] (Map.empty(''parameters'' \<mapsto> IString ''x''))) ''parameters''
       = Some (IString ''x'')"
    by (simp add: exContext_def)
  have c: "Keys (exContext [] (Map.empty(''parameters'' \<mapsto> IMap Map.empty))) ''parameters''
       = Some (IMap Map.empty)"
    by (simp add: exContext_def)
  have d: "Keys (exContext [] (Map.empty(''parameters'' \<mapsto> IMap (Map.empty(''path'' \<mapsto> IOther)))))
       ''parameters'' = Some (IMap (Map.empty(''path'' \<mapsto> IOther)))"
    by (simp add: exContext_def)
  have a': "panics (secureDisplay exExtern (exHandlers exKey32 []) (exContext [] Map.empty))"
    using securePath_unguarded_assertions_panic
      [of "exContext [] Map.empty" exExtern "exHandlers exKey32 []"] a
    by simp
  have b': "panics (secureGet exExtern (exHandlers exKey32 [])
       (exContext [] (Map.empty(''parameters'' \<mapsto> IString ''x''))))"
    using securePath_unguarded_assertions_panic
      [of "exContext [] (Map.empty(''parameters'' \<mapsto> IString ''x''))" exExtern
        "exHandlers exKey32 []"] b
    by simp
  have c': "panics (secureRedirect exExtern (exHandlers exKey32 [])
       (exContext [] (Map.empty(''parameters'' \<mapsto> IMap Map.empty))))"
    using securePath_unguarded_assertions_panic
      [of "exContext [] (Map.empty(''parameters'' \<mapsto> IMap Map.empty))" exExtern
        "exHandlers exKey32 []"] c
    by simp
  have d': "panics (securePath exExtern (exHandlers exKey32 [])
       (exContext [] (Map.empty(''parameters'' \<mapsto> IMap (Map.empty(''path'' \<mapsto> IOther))))))"
    using securePath_unguarded_assertions_panic
      [of "exContext [] (Map.empty(''parameters'' \<mapsto> IMap (Map.empty(''path'' \<mapsto> IOther))))"
        exExtern "exHandlers exKey32 []"] d
    by simp
  show ?thesis
    using a b c d a' b' c' d' by blast
qed

end
